theory Spec2Isabelle
  imports Main "HOL-Library.Word"
begin

section \<open>Label selectors and node affinity of the Firmament scheduler\<close>

text \<open>
  A shallow embedding of \<^verbatim>\<open>src/scheduling/label_utils.cc\<close>: the translation of
  node-selector requirements into label selectors, the evaluation of a label selector
  against the labels of a resource, the node-affinity predicate built on both, and the
  hash of a selector list.
\<close>

subsection \<open>Messages\<close>

text \<open>
  The protocol-buffer messages, with the fields the functions read. A repeated field is a
  list; an optional sub-message, which the code tests with \<^verbatim>\<open>has_...()\<close> before
  reading it, is an option.
\<close>

text \<open>
  Modelled from the spec: the declaration of the enumeration
  \<^verbatim>\<open>LabelSelector::SelectorType\<close>, which is not among the sources. The spec names its
  four members in the order \<^verbatim>\<open>IN_SET\<close>, \<^verbatim>\<open>NOT_IN_SET\<close>, \<^verbatim>\<open>EXISTS_KEY\<close>,
  \<^verbatim>\<open>NOT_EXISTS_KEY\<close>, with \<^verbatim>\<open>IN_SET\<close> at index 0. A proto3 enumeration field
  holds an integer, and the code makes one by
  \<^verbatim>\<open>static_cast<LabelSelector_SelectorType>(type)\<close> from the indices 0 to 3, so the type
  is the integers and the members are four of them.
\<close>

type_synonym LabelSelector_SelectorType = int

definition IN_SET :: LabelSelector_SelectorType where
  "IN_SET = 0"

definition NOT_IN_SET :: LabelSelector_SelectorType where
  "NOT_IN_SET = 1"

definition EXISTS_KEY :: LabelSelector_SelectorType where
  "EXISTS_KEY = 2"

definition NOT_EXISTS_KEY :: LabelSelector_SelectorType where
  "NOT_EXISTS_KEY = 3"

record Label =
  label_key :: string
  label_value :: string

record LabelSelector =
  sel_type :: LabelSelector_SelectorType
  sel_key :: string
  sel_values :: "string list"

record NodeSelectorRequirement =
  req_key :: string
  req_operator :: string
  req_values :: "string list"

record NodeSelectorTerm =
  matchexpressions :: "NodeSelectorRequirement list"

record NodeSelector =
  nodeselectorterms :: "NodeSelectorTerm list"

record NodeAffinity =
  requiredduringschedulingignoredduringexecution :: "NodeSelector option"

record Affinity =
  node_affinity :: "NodeAffinity option"

record ResourceDescriptor =
  labels :: "Label list"

record TaskDescriptor =
  label_selectors :: "LabelSelector list"
  affinity :: "Affinity option"

text \<open>\<^verbatim>\<open>LOG(FATAL)\<close> ends the process: it is the one error of these functions.\<close>

datatype fatal = Unsupported_selector_type LabelSelector_SelectorType

subsection \<open>Map helpers\<close>

text \<open>
  Modelled from the spec: \<^verbatim>\<open>FindOrNull\<close> and \<^verbatim>\<open>ContainsKey\<close> of
  \<^verbatim>\<open>misc/map-util.h\<close>, a header that is not among the sources. The spec reads the
  first as the value bound to the key when the key exists (a null pointer otherwise) and
  the second as the presence of the key.
\<close>

definition FindOrNull :: "('k \<rightharpoonup> 'v) \<Rightarrow> 'k \<Rightarrow> 'v option" where
  "FindOrNull collection k = collection k"

definition ContainsKey :: "('k \<rightharpoonup> 'v) \<Rightarrow> 'k \<Rightarrow> bool" where
  "ContainsKey collection k = (collection k \<noteq> None)"

text \<open>
  Modelled from the spec: \<^verbatim>\<open>InsertIfNotPresent\<close> of the same header, whose body is
  not among the sources. The spec's words on two labels of one resource with the same key
  are that the last write wins on collision, and the model follows them: the pair is
  written whether or not the key is bound. The helper's name suggests the opposite, that
  a bound key keeps its value; the sources do not settle it, and only a resource with a
  repeated key tells the two readings apart. Both callers drop the boolean result, so the
  model returns the map alone.
\<close>

definition InsertIfNotPresent :: "('k \<rightharpoonup> 'v) \<Rightarrow> 'k \<Rightarrow> 'v \<Rightarrow> ('k \<rightharpoonup> 'v)" where
  "InsertIfNotPresent collection k v = collection(k \<mapsto> v)"

subsection \<open>From node-selector requirements to label selectors\<close>

text \<open>
  One round of the loop of \<^verbatim>\<open>NodeSelectorRequirementsAsLabelSelectors\<close>: the local
  \<^verbatim>\<open>type\<close> starts at 0 and is only overwritten by a recognised operator name; the
  values are added one by one.
\<close>

definition selector_of_requirement :: "NodeSelectorRequirement \<Rightarrow> LabelSelector" where
  "selector_of_requirement nsm =
     (let operator_type = req_operator nsm;
          type = (if operator_type = ''In'' then 0
                  else if operator_type = ''NotIn'' then 1
                  else if operator_type = ''Exists'' then 2
                  else if operator_type = ''DoesNotExist'' then 3
                  else 0)
      in \<lparr>sel_type = type, sel_key = req_key nsm,
          sel_values = fold (\<lambda>v vs. vs @ [v]) (req_values nsm) []\<rparr>)"

definition NodeSelectorRequirementsAsLabelSelectors ::
    "NodeSelectorRequirement list \<Rightarrow> LabelSelector list" where
  "NodeSelectorRequirementsAsLabelSelectors matchExpressions =
     fold (\<lambda>nsm td_label_selectors. td_label_selectors @ [selector_of_requirement nsm])
       matchExpressions []"

subsection \<open>Evaluating a label selector\<close>

text \<open>The overload on a label map, a value set and a selector (the \<^verbatim>\<open>switch\<close>).\<close>

definition SatisfiesLabelSelector ::
    "(string \<rightharpoonup> string) \<Rightarrow> string set \<Rightarrow> LabelSelector \<Rightarrow> fatal + bool" where
  "SatisfiesLabelSelector rd_labels selector_values selector =
     (if sel_type selector = IN_SET then
        (case FindOrNull rd_labels (sel_key selector) of
           Some v \<Rightarrow> if v \<in> selector_values then Inr True else Inr False
         | None \<Rightarrow> Inr False)
      else if sel_type selector = NOT_IN_SET then
        (case FindOrNull rd_labels (sel_key selector) of
           Some v \<Rightarrow> if v \<in> selector_values then Inr False else Inr True
         | None \<Rightarrow> Inr True)
      else if sel_type selector = EXISTS_KEY then
        Inr (ContainsKey rd_labels (sel_key selector))
      else if sel_type selector = NOT_EXISTS_KEY then
        Inr (\<not> ContainsKey rd_labels (sel_key selector))
      else Inl (Unsupported_selector_type (sel_type selector)))"

text \<open>The overload on a label map and a selector: it collects the selector's values.\<close>

definition SatisfiesLabelSelector_map ::
    "(string \<rightharpoonup> string) \<Rightarrow> LabelSelector \<Rightarrow> fatal + bool" where
  "SatisfiesLabelSelector_map rd_labels selector =
     SatisfiesLabelSelector rd_labels (fold insert (sel_values selector) {}) selector"

text \<open>
  The label map of a resource, as both \<^verbatim>\<open>SatisfiesLabelSelectors\<close> and the overload
  on a resource build it: one \<^verbatim>\<open>InsertIfNotPresent\<close> per label, in list order.
\<close>

definition rd_labels_of :: "ResourceDescriptor \<Rightarrow> (string \<rightharpoonup> string)" where
  "rd_labels_of rd =
     fold (\<lambda>label rd_labels. InsertIfNotPresent rd_labels (label_key label) (label_value label))
       (labels rd) Map.empty"

definition SatisfiesLabelSelector_rd ::
    "ResourceDescriptor \<Rightarrow> LabelSelector \<Rightarrow> fatal + bool" where
  "SatisfiesLabelSelector_rd rd selector = SatisfiesLabelSelector_map (rd_labels_of rd) selector"

text \<open>The loop of \<^verbatim>\<open>SatisfiesLabelSelectors\<close>: it leaves at the first selector that fails.\<close>

fun all_selectors :: "(string \<rightharpoonup> string) \<Rightarrow> LabelSelector list \<Rightarrow> fatal + bool" where
  "all_selectors rd_labels [] = Inr True"
| "all_selectors rd_labels (selector # selectors) =
     (case SatisfiesLabelSelector_map rd_labels selector of
        Inl e \<Rightarrow> Inl e
      | Inr ok \<Rightarrow> if \<not> ok then Inr False else all_selectors rd_labels selectors)"

definition SatisfiesLabelSelectors ::
    "ResourceDescriptor \<Rightarrow> LabelSelector list \<Rightarrow> fatal + bool" where
  "SatisfiesLabelSelectors rd selectors = all_selectors (rd_labels_of rd) selectors"

subsection \<open>Node affinity\<close>

definition SatisfiesMatchExpressions ::
    "ResourceDescriptor \<Rightarrow> NodeSelectorRequirement list \<Rightarrow> fatal + bool" where
  "SatisfiesMatchExpressions rd matchExpressions =
     SatisfiesLabelSelectors rd (NodeSelectorRequirementsAsLabelSelectors matchExpressions)"

definition NodeMatchesNodeSelectorTerm ::
    "ResourceDescriptor \<Rightarrow> NodeSelectorTerm \<Rightarrow> fatal + bool" where
  "NodeMatchesNodeSelectorTerm rd nodeSelectorTerm =
     (if length (matchexpressions nodeSelectorTerm) = 0 then Inr False
      else SatisfiesMatchExpressions rd (matchexpressions nodeSelectorTerm))"

fun NodeMatchesNodeSelectorTerms ::
    "ResourceDescriptor \<Rightarrow> NodeSelectorTerm list \<Rightarrow> fatal + bool" where
  "NodeMatchesNodeSelectorTerms rd [] = Inr False"
| "NodeMatchesNodeSelectorTerms rd (req # nodeSelectorTerms) =
     (if length (matchexpressions req) = 0 then NodeMatchesNodeSelectorTerms rd nodeSelectorTerms
      else (case SatisfiesMatchExpressions rd (matchexpressions req) of
              Inl e \<Rightarrow> Inl e
            | Inr ok \<Rightarrow> if \<not> ok then NodeMatchesNodeSelectorTerms rd nodeSelectorTerms
                       else Inr True))"

text \<open>
  The second half of \<^verbatim>\<open>SatisfiesNodeSelectorAndNodeAffinity\<close>, reached when the
  task's own label selectors did not reject the resource.
\<close>

definition node_affinity_part :: "ResourceDescriptor \<Rightarrow> TaskDescriptor \<Rightarrow> fatal + bool" where
  "node_affinity_part rd td =
     (let nodeAffinityMatches = True in
      case affinity td of
        None \<Rightarrow> Inr nodeAffinityMatches
      | Some aff \<Rightarrow>
          (case node_affinity aff of
             None \<Rightarrow> Inr nodeAffinityMatches
           | Some na \<Rightarrow>
               (case requiredduringschedulingignoredduringexecution na of
                  None \<Rightarrow> Inr True
                | Some required \<Rightarrow>
                    if length (nodeselectorterms required) \<noteq> 0 then
                      (if nodeAffinityMatches
                       then NodeMatchesNodeSelectorTerms rd (nodeselectorterms required)
                       else Inr False)
                    else Inr nodeAffinityMatches)))"

definition SatisfiesNodeSelectorAndNodeAffinity ::
    "ResourceDescriptor \<Rightarrow> TaskDescriptor \<Rightarrow> fatal + bool" where
  "SatisfiesNodeSelectorAndNodeAffinity rd td =
     (if length (label_selectors td) \<noteq> 0 then
        (case SatisfiesLabelSelectors rd (label_selectors td) of
           Inl e \<Rightarrow> Inl e
         | Inr ok \<Rightarrow> if \<not> ok then Inr False else node_affinity_part rd td)
      else node_affinity_part rd td)"

subsection \<open>Hashing a selector list\<close>

text \<open>
  \<^verbatim>\<open>boost::hash_combine\<close> and \<^verbatim>\<open>HashString\<close> are library functions outside the
  sources: \<^verbatim>\<open>HashSelectors\<close> takes them as parameters. A \<^verbatim>\<open>size_t\<close> is a 64-bit
  word.
\<close>

definition HashSelectors ::
    "(64 word \<Rightarrow> 64 word \<Rightarrow> 64 word) \<Rightarrow> (string \<Rightarrow> 64 word) \<Rightarrow> LabelSelector list \<Rightarrow> 64 word" where
  "HashSelectors hash_combine HashString selectors =
     fold (\<lambda>label_selector seed.
             fold (\<lambda>v seed'. hash_combine seed' (HashString v)) (sel_values label_selector)
               (hash_combine seed (HashString (sel_key label_selector))))
       selectors 0"

subsection \<open>The closed enumeration\<close>

text \<open>The four members of the selector-type enumeration; any other integer is outside it.\<close>

definition valid_type :: "LabelSelector_SelectorType \<Rightarrow> bool" where
  "valid_type t = (t = IN_SET \<or> t = NOT_IN_SET \<or> t = EXISTS_KEY \<or> t = NOT_EXISTS_KEY)"

section \<open>Auxiliary facts\<close>

lemmas selector_type_defs = IN_SET_def NOT_IN_SET_def EXISTS_KEY_def NOT_EXISTS_KEY_def

lemma fold_insert_set: "fold insert xs A = set xs \<union> A"
  by (induction xs arbitrary: A) auto

lemma fold_snoc: "fold (\<lambda>v vs. vs @ [v]) xs acc = acc @ xs"
  by (induction xs arbitrary: acc) auto

lemma fold_snoc_map: "fold (\<lambda>x acc. acc @ [f x]) xs acc = acc @ map f xs"
  by (induction xs arbitrary: acc) auto

lemma fold_InsertIfNotPresent_other:
  "k \<notin> label_key ` set ls \<Longrightarrow>
     fold (\<lambda>l m. InsertIfNotPresent m (label_key l) (label_value l)) ls m k = m k"
  by (induction ls arbitrary: m) (auto simp: InsertIfNotPresent_def)

lemma SatisfiesLabelSelector_map_set:
  "SatisfiesLabelSelector_map m s = SatisfiesLabelSelector m (set (sel_values s)) s"
  by (simp add: SatisfiesLabelSelector_map_def fold_insert_set)

lemma SatisfiesLabelSelector_valid:
  "valid_type (sel_type s) \<Longrightarrow> \<exists>b. SatisfiesLabelSelector m V s = Inr b"
  by (auto simp: valid_type_def SatisfiesLabelSelector_def selector_type_defs split: option.splits)

lemma SatisfiesLabelSelector_invalid:
  "\<not> valid_type (sel_type s) \<Longrightarrow>
     SatisfiesLabelSelector m V s = Inl (Unsupported_selector_type (sel_type s))"
  by (auto simp: valid_type_def SatisfiesLabelSelector_def)

lemma all_selectors_valid:
  "\<forall>s\<in>set sels. valid_type (sel_type s) \<Longrightarrow>
     all_selectors m sels = Inr (\<forall>s\<in>set sels. SatisfiesLabelSelector_map m s = Inr True)"
proof (induction sels)
  case Nil
  then show ?case by simp
next
  case (Cons s sels)
  then obtain b where "SatisfiesLabelSelector_map m s = Inr b"
    using SatisfiesLabelSelector_valid [of s m] by (auto simp: SatisfiesLabelSelector_map_def)
  with Cons show ?case by auto
qed

lemma all_selectors_not_True:
  "\<exists>s\<in>set sels. SatisfiesLabelSelector_map m s \<noteq> Inr True \<Longrightarrow> all_selectors m sels \<noteq> Inr True"
  by (induction sels) (auto split: sum.splits)

lemma selector_of_requirement_eq:
  "selector_of_requirement r =
     \<lparr>sel_type = (if req_operator r = ''In'' then IN_SET
                  else if req_operator r = ''NotIn'' then NOT_IN_SET
                  else if req_operator r = ''Exists'' then EXISTS_KEY
                  else if req_operator r = ''DoesNotExist'' then NOT_EXISTS_KEY
                  else IN_SET),
      sel_key = req_key r, sel_values = req_values r\<rparr>"
  by (simp add: selector_of_requirement_def Let_def fold_snoc selector_type_defs)

lemma selector_of_requirement_valid: "valid_type (sel_type (selector_of_requirement r))"
  by (simp add: selector_of_requirement_eq valid_type_def)

lemma NodeSelectorRequirementsAsLabelSelectors_map:
  "NodeSelectorRequirementsAsLabelSelectors reqs = map selector_of_requirement reqs"
  by (simp add: NodeSelectorRequirementsAsLabelSelectors_def fold_snoc_map)

lemma SatisfiesMatchExpressions_eq:
  "SatisfiesMatchExpressions rd reqs =
     Inr (\<forall>r\<in>set reqs. SatisfiesLabelSelector_map (rd_labels_of rd) (selector_of_requirement r) = Inr True)"
  by (simp add: SatisfiesMatchExpressions_def SatisfiesLabelSelectors_def
      NodeSelectorRequirementsAsLabelSelectors_map all_selectors_valid selector_of_requirement_valid)

lemma NodeMatchesNodeSelectorTerms_eq:
  "NodeMatchesNodeSelectorTerms rd terms =
     Inr (\<exists>t\<in>set terms. NodeMatchesNodeSelectorTerm rd t = Inr True)"
  by (induction terms) (auto simp: NodeMatchesNodeSelectorTerm_def SatisfiesMatchExpressions_eq)

lemma SatisfiesLabelSelector_lookup:
  "m (sel_key s) = m' (sel_key s) \<Longrightarrow> SatisfiesLabelSelector m V s = SatisfiesLabelSelector m' V s"
  by (simp add: SatisfiesLabelSelector_def FindOrNull_def ContainsKey_def)

lemma rd_labels_of_last:
  "labels rd = before @ l # rest \<Longrightarrow> label_key l \<notin> label_key ` set rest \<Longrightarrow>
     rd_labels_of rd (label_key l) = Some (label_value l)"
  by (simp add: rd_labels_of_def fold_InsertIfNotPresent_other) (simp add: InsertIfNotPresent_def)

lemma HashSelectors_proj:
  "fold (\<lambda>label_selector seed.
             fold (\<lambda>v seed'. hc seed' (hs v)) (sel_values label_selector)
               (hc seed (hs (sel_key label_selector)))) xs seed =
   fold (\<lambda>(k, vs) seed. fold (\<lambda>v seed'. hc seed' (hs v)) vs (hc seed (hs k)))
     (map (\<lambda>s. (sel_key s, sel_values s)) xs) seed"
  by (induction xs arbitrary: seed) auto

lemma list_all2_proj:
  "list_all2 (\<lambda>a b. sel_key a = sel_key b \<and> sel_values a = sel_values b) xs ys \<Longrightarrow>
     map (\<lambda>s. (sel_key s, sel_values s)) xs = map (\<lambda>s. (sel_key s, sel_values s)) ys"
  by (induction rule: list_all2_induct) auto

section \<open>The claims\<close>

subsection \<open>Membership selectors\<close>

text \<open>
  Claim C1. On a selector of kind \<^verbatim>\<open>IN_SET\<close> with value set \<open>V\<close>,
  \<^verbatim>\<open>SatisfiesLabelSelector\<close> returns true exactly when the selector's key is bound in the
  label map and the value bound to it is a member of \<open>V\<close>; when the key is not bound it
  returns false. The overload that collects the value set from the selector's own value
  list behaves the same, with \<open>V\<close> the set of that list.
\<close>

theorem in_set_iff_bound_to_member:
  assumes "sel_type selector = IN_SET"
  shows "SatisfiesLabelSelector rd_labels V selector =
           Inr (\<exists>v. rd_labels (sel_key selector) = Some v \<and> v \<in> V)
         \<and> (rd_labels (sel_key selector) = None \<longrightarrow>
              SatisfiesLabelSelector rd_labels V selector = Inr False)
         \<and> SatisfiesLabelSelector_map rd_labels selector =
             Inr (\<exists>v. rd_labels (sel_key selector) = Some v \<and> v \<in> set (sel_values selector))"
  using assms
  by (auto simp: SatisfiesLabelSelector_map_set SatisfiesLabelSelector_def FindOrNull_def
      split: option.splits)

theorem in_set_iff_bound_to_member_witness:
  "sel_type \<lparr>sel_type = IN_SET, sel_key = ''zone'', sel_values = [''us-east'', ''us-west'']\<rparr> = IN_SET
   \<and> SatisfiesLabelSelector [''zone'' \<mapsto> ''us-east''] {''us-east'', ''us-west''}
        \<lparr>sel_type = IN_SET, sel_key = ''zone'', sel_values = [''us-east'', ''us-west'']\<rparr> = Inr True
   \<and> SatisfiesLabelSelector Map.empty {''us-east'', ''us-west''}
        \<lparr>sel_type = IN_SET, sel_key = ''zone'', sel_values = [''us-east'', ''us-west'']\<rparr> = Inr False"
  using in_set_iff_bound_to_member
      [of "\<lparr>sel_type = IN_SET, sel_key = ''zone'', sel_values = [''us-east'', ''us-west'']\<rparr>"
          "[''zone'' \<mapsto> ''us-east'']" "{''us-east'', ''us-west''}"]
    in_set_iff_bound_to_member
      [of "\<lparr>sel_type = IN_SET, sel_key = ''zone'', sel_values = [''us-east'', ''us-west'']\<rparr>"
          "Map.empty" "{''us-east'', ''us-west''}"]
  by simp

text \<open>
  On a key that the label map does not bind, the \<^verbatim>\<open>IN_SET\<close> selector returns false, not
  true: the two kinds do not agree there.
\<close>

theorem not_in_set_absent_key_counterexample:
  "Map.empty ''zone'' = (None :: string option)
   \<and> SatisfiesLabelSelector Map.empty {''us-east''}
        \<lparr>sel_type = IN_SET, sel_key = ''zone'', sel_values = [''us-east'']\<rparr> = Inr False
   \<and> SatisfiesLabelSelector Map.empty {''us-east''}
        \<lparr>sel_type = IN_SET, sel_key = ''zone'', sel_values = [''us-east'']\<rparr> \<noteq> Inr True"
  by (simp add: SatisfiesLabelSelector_def FindOrNull_def)

text \<open>
  Claim C2, as amended. For a label map, a key and a value set \<open>V\<close>, the \<^verbatim>\<open>NOT_IN_SET\<close>
  selector returns the logical negation of what the \<^verbatim>\<open>IN_SET\<close> selector with the same
  key returns, in every case; when the key is not bound in the map the \<^verbatim>\<open>IN_SET\<close>
  selector returns false and the \<^verbatim>\<open>NOT_IN_SET\<close> selector returns true.
\<close>

theorem not_in_set_negates_in_set:
  assumes "sel_type s_in = IN_SET" and "sel_type s_not = NOT_IN_SET"
    and "sel_key s_not = sel_key s_in"
  shows "(\<exists>b. SatisfiesLabelSelector rd_labels V s_in = Inr b
              \<and> SatisfiesLabelSelector rd_labels V s_not = Inr (\<not> b))
         \<and> (rd_labels (sel_key s_in) = None \<longrightarrow>
              SatisfiesLabelSelector rd_labels V s_in = Inr False
              \<and> SatisfiesLabelSelector rd_labels V s_not = Inr True)"
  using assms
  by (auto simp: SatisfiesLabelSelector_def FindOrNull_def selector_type_defs
      split: option.splits)

theorem not_in_set_negates_in_set_witness:
  "SatisfiesLabelSelector [''zone'' \<mapsto> ''us-east''] {''us-east''}
        \<lparr>sel_type = NOT_IN_SET, sel_key = ''zone'', sel_values = [''us-east'']\<rparr> = Inr False
   \<and> SatisfiesLabelSelector Map.empty {''us-east''}
        \<lparr>sel_type = NOT_IN_SET, sel_key = ''zone'', sel_values = [''us-east'']\<rparr> = Inr True"
proof -
  let ?i = "\<lparr>sel_type = IN_SET, sel_key = ''zone'', sel_values = [''us-east'']\<rparr>"
  let ?n = "\<lparr>sel_type = NOT_IN_SET, sel_key = ''zone'', sel_values = [''us-east'']\<rparr>"
  have i: "sel_type ?i = IN_SET" and n: "sel_type ?n = NOT_IN_SET" and k: "sel_key ?n = sel_key ?i"
    by simp_all
  have p: "SatisfiesLabelSelector [''zone'' \<mapsto> ''us-east''] {''us-east''} ?i = Inr True"
    by (simp add: SatisfiesLabelSelector_def FindOrNull_def)
  from not_in_set_negates_in_set [OF i n k, of "[''zone'' \<mapsto> ''us-east'']" "{''us-east''}"] p
  have "SatisfiesLabelSelector [''zone'' \<mapsto> ''us-east''] {''us-east''} ?n = Inr False"
    by auto
  moreover from not_in_set_negates_in_set [OF i n k, of Map.empty "{''us-east''}"]
  have "SatisfiesLabelSelector Map.empty {''us-east''} ?n = Inr True"
    by simp
  ultimately show ?thesis by simp
qed

subsection \<open>Node affinity\<close>

text \<open>
  A task without label selectors that declares a required node affinity with an empty
  term list is accepted on a resource: the term list is consulted only when it is not
  empty.
\<close>

theorem empty_required_terms_counterexample:
  "SatisfiesNodeSelectorAndNodeAffinity \<lparr>labels = []\<rparr>
     \<lparr>label_selectors = [],
      affinity = Some \<lparr>node_affinity = Some
        \<lparr>requiredduringschedulingignoredduringexecution = Some \<lparr>nodeselectorterms = []\<rparr>\<rparr>\<rparr>\<rparr>
   = Inr True"
  by (simp add: SatisfiesNodeSelectorAndNodeAffinity_def node_affinity_part_def)

text \<open>
  Claim C3, as amended. For a task that declares node affinity whose
  required-during-scheduling field is present with an empty node-selector-term list, and
  for every resource, \<^verbatim>\<open>SatisfiesNodeSelectorAndNodeAffinity\<close> returns what the step on the
  task's own label selectors yields, the empty term list adding no constraint: true when
  the task carries no label selectors (or the resource satisfies all of them), false when
  the resource fails one of them.
\<close>

theorem empty_required_terms_no_constraint:
  assumes "affinity td = Some aff" and "node_affinity aff = Some na"
    and "requiredduringschedulingignoredduringexecution na = Some required"
    and "nodeselectorterms required = []"
  shows "SatisfiesNodeSelectorAndNodeAffinity rd td = SatisfiesLabelSelectors rd (label_selectors td)
         \<and> (label_selectors td = [] \<longrightarrow> SatisfiesNodeSelectorAndNodeAffinity rd td = Inr True)"
proof -
  have part: "node_affinity_part rd td = Inr True"
    using assms by (simp add: node_affinity_part_def)
  show ?thesis
  proof (cases "label_selectors td")
    case Nil
    with part show ?thesis
      by (simp add: SatisfiesNodeSelectorAndNodeAffinity_def SatisfiesLabelSelectors_def)
  next
    case (Cons s ss)
    with part show ?thesis
      by (auto simp: SatisfiesNodeSelectorAndNodeAffinity_def split: sum.splits)
  qed
qed

theorem empty_required_terms_no_constraint_witness:
  "SatisfiesNodeSelectorAndNodeAffinity \<lparr>labels = [\<lparr>label_key = ''zone'', label_value = ''us-east''\<rparr>]\<rparr>
     \<lparr>label_selectors = [\<lparr>sel_type = NOT_IN_SET, sel_key = ''zone'', sel_values = [''us-east'']\<rparr>],
      affinity = Some \<lparr>node_affinity = Some
        \<lparr>requiredduringschedulingignoredduringexecution = Some \<lparr>nodeselectorterms = []\<rparr>\<rparr>\<rparr>\<rparr>
   = Inr False
   \<and> SatisfiesNodeSelectorAndNodeAffinity \<lparr>labels = [\<lparr>label_key = ''zone'', label_value = ''us-east''\<rparr>]\<rparr>
     \<lparr>label_selectors = [],
      affinity = Some \<lparr>node_affinity = Some
        \<lparr>requiredduringschedulingignoredduringexecution = Some \<lparr>nodeselectorterms = []\<rparr>\<rparr>\<rparr>\<rparr>
   = Inr True"
proof -
  let ?rd = "\<lparr>labels = [\<lparr>label_key = ''zone'', label_value = ''us-east''\<rparr>]\<rparr>"
  let ?req = "\<lparr>nodeselectorterms = []\<rparr>"
  let ?na = "\<lparr>requiredduringschedulingignoredduringexecution = Some ?req\<rparr>"
  let ?aff = "\<lparr>node_affinity = Some ?na\<rparr>"
  let ?sel = "\<lparr>sel_type = NOT_IN_SET, sel_key = ''zone'', sel_values = [''us-east'']\<rparr>"
  let ?td1 = "\<lparr>label_selectors = [?sel], affinity = Some ?aff\<rparr>"
  let ?td2 = "\<lparr>label_selectors = [], affinity = Some ?aff\<rparr>"
  have sls: "SatisfiesLabelSelectors ?rd [?sel] = Inr False"
    by (simp add: SatisfiesLabelSelectors_def rd_labels_of_def InsertIfNotPresent_def
        SatisfiesLabelSelector_map_def SatisfiesLabelSelector_def FindOrNull_def selector_type_defs)
  have "SatisfiesNodeSelectorAndNodeAffinity ?rd ?td1 = Inr False"
    using empty_required_terms_no_constraint [of ?td1 ?aff ?na ?req ?rd] sls by simp
  moreover have "SatisfiesNodeSelectorAndNodeAffinity ?rd ?td2 = Inr True"
    using empty_required_terms_no_constraint [of ?td2 ?aff ?na ?req ?rd]
    by (simp add: SatisfiesLabelSelectors_def)
  ultimately show ?thesis by simp
qed

text \<open>
  Claim C4. \<^verbatim>\<open>NodeMatchesNodeSelectorTerm\<close> returns false on a term with no match
  expressions; \<^verbatim>\<open>NodeMatchesNodeSelectorTerms\<close> returns false on the empty term list; and
  on any term list it returns true exactly when some term of the list has a match
  expression and is matched, so an empty term in the list does not keep another term from
  succeeding.
\<close>

theorem empty_term_and_empty_term_list:
  "(matchexpressions t = [] \<longrightarrow> NodeMatchesNodeSelectorTerm rd t = Inr False)
   \<and> NodeMatchesNodeSelectorTerms rd [] = Inr False
   \<and> NodeMatchesNodeSelectorTerms rd terms =
       Inr (\<exists>t'\<in>set terms. matchexpressions t' \<noteq> [] \<and> NodeMatchesNodeSelectorTerm rd t' = Inr True)"
  by (auto simp: NodeMatchesNodeSelectorTerms_eq NodeMatchesNodeSelectorTerm_def)

theorem empty_term_and_empty_term_list_witness:
  "NodeMatchesNodeSelectorTerm \<lparr>labels = [\<lparr>label_key = ''gpu'', label_value = ''yes''\<rparr>]\<rparr>
       \<lparr>matchexpressions = []\<rparr> = Inr False
   \<and> NodeMatchesNodeSelectorTerms \<lparr>labels = [\<lparr>label_key = ''gpu'', label_value = ''yes''\<rparr>]\<rparr>
       [\<lparr>matchexpressions = []\<rparr>] = Inr False
   \<and> NodeMatchesNodeSelectorTerms \<lparr>labels = [\<lparr>label_key = ''gpu'', label_value = ''yes''\<rparr>]\<rparr>
       [\<lparr>matchexpressions = []\<rparr>,
        \<lparr>matchexpressions = [\<lparr>req_key = ''gpu'', req_operator = ''Exists'', req_values = []\<rparr>]\<rparr>]
       = Inr True"
proof -
  let ?rd = "\<lparr>labels = [\<lparr>label_key = ''gpu'', label_value = ''yes''\<rparr>]\<rparr>"
  let ?e = "\<lparr>matchexpressions = []\<rparr>"
  let ?t = "\<lparr>matchexpressions = [\<lparr>req_key = ''gpu'', req_operator = ''Exists'', req_values = []\<rparr>]\<rparr>"
  have t: "NodeMatchesNodeSelectorTerm ?rd ?t = Inr True"
    by (simp add: NodeMatchesNodeSelectorTerm_def SatisfiesMatchExpressions_def
        NodeSelectorRequirementsAsLabelSelectors_def selector_of_requirement_def
        SatisfiesLabelSelectors_def rd_labels_of_def InsertIfNotPresent_def
        SatisfiesLabelSelector_map_def SatisfiesLabelSelector_def ContainsKey_def
        selector_type_defs)
  have "NodeMatchesNodeSelectorTerm ?rd ?e = Inr False"
    using empty_term_and_empty_term_list [of ?e ?rd "[]"] by simp
  moreover have "NodeMatchesNodeSelectorTerms ?rd [?e] = Inr False"
    using empty_term_and_empty_term_list [of ?e ?rd "[?e]"] by simp
  moreover have "NodeMatchesNodeSelectorTerms ?rd [?e, ?t] = Inr True"
    using empty_term_and_empty_term_list [of ?e ?rd "[?e, ?t]"] t by simp
  ultimately show ?thesis by simp
qed

text \<open>
  Claim C5. When a task carries at least one label selector and the labels of the resource
  do not satisfy all of them, so that \<^verbatim>\<open>SatisfiesLabelSelectors\<close> returns false,
  \<^verbatim>\<open>SatisfiesNodeSelectorAndNodeAffinity\<close> returns false, whatever node affinity the
  task declares. More generally, as soon as one of the task's selectors is not satisfied by
  the resource, the resource is never accepted.
\<close>

theorem unsatisfied_label_selectors_reject:
  assumes "label_selectors td \<noteq> []"
  shows "(SatisfiesLabelSelectors rd (label_selectors td) = Inr False \<longrightarrow>
            SatisfiesNodeSelectorAndNodeAffinity rd td = Inr False)
         \<and> ((\<exists>s\<in>set (label_selectors td). SatisfiesLabelSelector_rd rd s \<noteq> Inr True) \<longrightarrow>
            SatisfiesNodeSelectorAndNodeAffinity rd td \<noteq> Inr True)"
proof -
  have "SatisfiesLabelSelectors rd (label_selectors td) \<noteq> Inr True"
    if "\<exists>s\<in>set (label_selectors td). SatisfiesLabelSelector_rd rd s \<noteq> Inr True"
    using that unfolding SatisfiesLabelSelectors_def SatisfiesLabelSelector_rd_def
    by (rule all_selectors_not_True)
  with assms show ?thesis
    by (auto simp: SatisfiesNodeSelectorAndNodeAffinity_def split: sum.splits)
qed

theorem unsatisfied_label_selectors_reject_witness:
  "SatisfiesNodeSelectorAndNodeAffinity \<lparr>labels = [\<lparr>label_key = ''zone'', label_value = ''us-east''\<rparr>]\<rparr>
     \<lparr>label_selectors = [\<lparr>sel_type = EXISTS_KEY, sel_key = ''gpu'', sel_values = []\<rparr>,
                         \<lparr>sel_type = 4, sel_key = ''zone'', sel_values = []\<rparr>],
      affinity = Some \<lparr>node_affinity = Some
        \<lparr>requiredduringschedulingignoredduringexecution = None\<rparr>\<rparr>\<rparr>
   = Inr False"
proof -
  let ?rd = "\<lparr>labels = [\<lparr>label_key = ''zone'', label_value = ''us-east''\<rparr>]\<rparr>"
  let ?sels = "[\<lparr>sel_type = EXISTS_KEY, sel_key = ''gpu'', sel_values = []\<rparr>,
                \<lparr>sel_type = 4, sel_key = ''zone'', sel_values = []\<rparr>]"
  let ?td = "\<lparr>label_selectors = ?sels,
      affinity = Some \<lparr>node_affinity = Some
        \<lparr>requiredduringschedulingignoredduringexecution = None\<rparr>\<rparr>\<rparr>"
  have ne: "label_selectors ?td \<noteq> []" by simp
  have "SatisfiesLabelSelectors ?rd ?sels = Inr False"
    by (simp add: SatisfiesLabelSelectors_def rd_labels_of_def InsertIfNotPresent_def
        SatisfiesLabelSelector_map_def SatisfiesLabelSelector_def ContainsKey_def
        selector_type_defs)
  with unsatisfied_label_selectors_reject [OF ne, of ?rd] show ?thesis by simp
qed

subsection \<open>The label map of a resource\<close>

text \<open>
  Claim C6. When the label list of a resource has two or more entries with the same key,
  the label map built for selector evaluation binds that key to the value of the last such
  entry in the list (the last write wins), so a selector on that key gives over the
  resource the result it gives over a map holding the last-written value.
\<close>

theorem duplicate_key_last_write_wins:
  assumes "labels rd = before @ l # rest"
    and "label_key l \<notin> label_key ` set rest"
  shows "rd_labels_of rd (label_key l) = Some (label_value l)
         \<and> (sel_key selector = label_key l \<longrightarrow>
              SatisfiesLabelSelector_rd rd selector =
                SatisfiesLabelSelector_map [label_key l \<mapsto> label_value l] selector)"
proof -
  have last: "rd_labels_of rd (label_key l) = Some (label_value l)"
    using assms by (rule rd_labels_of_last)
  then have "SatisfiesLabelSelector_rd rd selector =
      SatisfiesLabelSelector_map [label_key l \<mapsto> label_value l] selector"
    if "sel_key selector = label_key l"
    unfolding SatisfiesLabelSelector_rd_def SatisfiesLabelSelector_map_def
    using that by (intro SatisfiesLabelSelector_lookup) simp
  with last show ?thesis by simp
qed

theorem duplicate_key_last_write_wins_witness:
  "rd_labels_of \<lparr>labels = [\<lparr>label_key = ''zone'', label_value = ''us-east''\<rparr>,
                            \<lparr>label_key = ''zone'', label_value = ''us-west''\<rparr>,
                            \<lparr>label_key = ''rack'', label_value = ''r1''\<rparr>]\<rparr> ''zone''
     = Some ''us-west''
   \<and> SatisfiesLabelSelector_rd
       \<lparr>labels = [\<lparr>label_key = ''zone'', label_value = ''us-east''\<rparr>,
                  \<lparr>label_key = ''zone'', label_value = ''us-west''\<rparr>,
                  \<lparr>label_key = ''rack'', label_value = ''r1''\<rparr>]\<rparr>
       \<lparr>sel_type = IN_SET, sel_key = ''zone'', sel_values = [''us-west'']\<rparr> = Inr True"
proof -
  let ?l = "\<lparr>label_key = ''zone'', label_value = ''us-west''\<rparr>"
  let ?before = "[\<lparr>label_key = ''zone'', label_value = ''us-east''\<rparr>]"
  let ?rest = "[\<lparr>label_key = ''rack'', label_value = ''r1''\<rparr>]"
  let ?rd = "\<lparr>labels = ?before @ ?l # ?rest\<rparr>"
  let ?sel = "\<lparr>sel_type = IN_SET, sel_key = ''zone'', sel_values = [''us-west'']\<rparr>"
  have a: "labels ?rd = ?before @ ?l # ?rest" by simp
  have b: "label_key ?l \<notin> label_key ` set ?rest" by simp
  have m: "SatisfiesLabelSelector_map [''zone'' \<mapsto> ''us-west''] ?sel = Inr True"
    by (simp add: SatisfiesLabelSelector_map_def SatisfiesLabelSelector_def FindOrNull_def)
  from duplicate_key_last_write_wins [OF a b, of ?sel] m show ?thesis by simp
qed

subsection \<open>Operator names\<close>

text \<open>
  Claim C7. \<^verbatim>\<open>NodeSelectorRequirementsAsLabelSelectors\<close> turns each requirement into one
  selector, in order: operator \<^verbatim>\<open>In\<close> gives kind \<^verbatim>\<open>IN_SET\<close>, \<^verbatim>\<open>NotIn\<close> gives
  \<^verbatim>\<open>NOT_IN_SET\<close>, \<^verbatim>\<open>Exists\<close> gives \<^verbatim>\<open>EXISTS_KEY\<close>, \<^verbatim>\<open>DoesNotExist\<close> gives
  \<^verbatim>\<open>NOT_EXISTS_KEY\<close>, any other operator string gives \<^verbatim>\<open>IN_SET\<close> (index 0); the key and
  the value list are copied unchanged.
\<close>

theorem operator_names_to_selector_kinds:
  "NodeSelectorRequirementsAsLabelSelectors matchExpressions =
     map (\<lambda>nsm. \<lparr>sel_type = (if req_operator nsm = ''In'' then IN_SET
                             else if req_operator nsm = ''NotIn'' then NOT_IN_SET
                             else if req_operator nsm = ''Exists'' then EXISTS_KEY
                             else if req_operator nsm = ''DoesNotExist'' then NOT_EXISTS_KEY
                             else IN_SET),
                 sel_key = req_key nsm, sel_values = req_values nsm\<rparr>) matchExpressions
   \<and> IN_SET = 0"
  by (simp add: NodeSelectorRequirementsAsLabelSelectors_map selector_of_requirement_eq IN_SET_def)

theorem operator_names_to_selector_kinds_witness:
  "NodeSelectorRequirementsAsLabelSelectors
     [\<lparr>req_key = ''a'', req_operator = ''In'', req_values = [''x'', ''y'']\<rparr>,
      \<lparr>req_key = ''b'', req_operator = ''NotIn'', req_values = [''x'']\<rparr>,
      \<lparr>req_key = ''c'', req_operator = ''Exists'', req_values = []\<rparr>,
      \<lparr>req_key = ''d'', req_operator = ''DoesNotExist'', req_values = []\<rparr>,
      \<lparr>req_key = ''e'', req_operator = ''Gt'', req_values = [''5'']\<rparr>]
   = [\<lparr>sel_type = IN_SET, sel_key = ''a'', sel_values = [''x'', ''y'']\<rparr>,
      \<lparr>sel_type = NOT_IN_SET, sel_key = ''b'', sel_values = [''x'']\<rparr>,
      \<lparr>sel_type = EXISTS_KEY, sel_key = ''c'', sel_values = []\<rparr>,
      \<lparr>sel_type = NOT_EXISTS_KEY, sel_key = ''d'', sel_values = []\<rparr>,
      \<lparr>sel_type = IN_SET, sel_key = ''e'', sel_values = [''5'']\<rparr>]"
  using operator_names_to_selector_kinds
    [of "[\<lparr>req_key = ''a'', req_operator = ''In'', req_values = [''x'', ''y'']\<rparr>,
      \<lparr>req_key = ''b'', req_operator = ''NotIn'', req_values = [''x'']\<rparr>,
      \<lparr>req_key = ''c'', req_operator = ''Exists'', req_values = []\<rparr>,
      \<lparr>req_key = ''d'', req_operator = ''DoesNotExist'', req_values = []\<rparr>,
      \<lparr>req_key = ''e'', req_operator = ''Gt'', req_values = [''5'']\<rparr>]"]
  by simp

subsection \<open>The fatal branch\<close>

text \<open>
  Claim C8. On a selector whose kind is one of \<^verbatim>\<open>IN_SET\<close>, \<^verbatim>\<open>NOT_IN_SET\<close>,
  \<^verbatim>\<open>EXISTS_KEY\<close>, \<^verbatim>\<open>NOT_EXISTS_KEY\<close>, \<^verbatim>\<open>SatisfiesLabelSelector\<close> returns a boolean
  and does not reach the fatal branch; on a kind outside the enumeration it ends in the
  fatal branch and returns no boolean.
\<close>

theorem fatal_only_outside_enumeration:
  "(sel_type selector \<in> {IN_SET, NOT_IN_SET, EXISTS_KEY, NOT_EXISTS_KEY} \<longrightarrow>
      (\<exists>b. SatisfiesLabelSelector rd_labels V selector = Inr b))
   \<and> (sel_type selector \<notin> {IN_SET, NOT_IN_SET, EXISTS_KEY, NOT_EXISTS_KEY} \<longrightarrow>
      SatisfiesLabelSelector rd_labels V selector =
        Inl (Unsupported_selector_type (sel_type selector)))"
  using SatisfiesLabelSelector_valid [of selector rd_labels V]
    SatisfiesLabelSelector_invalid [of selector rd_labels V]
  by (auto simp: valid_type_def)

theorem fatal_only_outside_enumeration_witness:
  "(\<exists>b. SatisfiesLabelSelector [''zone'' \<mapsto> ''us-east''] {}
           \<lparr>sel_type = NOT_EXISTS_KEY, sel_key = ''zone'', sel_values = []\<rparr> = Inr b)
   \<and> SatisfiesLabelSelector [''zone'' \<mapsto> ''us-east''] {}
        \<lparr>sel_type = 4, sel_key = ''zone'', sel_values = []\<rparr> = Inl (Unsupported_selector_type 4)"
  using fatal_only_outside_enumeration
      [of "\<lparr>sel_type = NOT_EXISTS_KEY, sel_key = ''zone'', sel_values = []\<rparr>"
          "[''zone'' \<mapsto> ''us-east'']" "{}"]
    fatal_only_outside_enumeration
      [of "\<lparr>sel_type = 4, sel_key = ''zone'', sel_values = []\<rparr>"
          "[''zone'' \<mapsto> ''us-east'']" "{}"]
  by (simp add: selector_type_defs)

subsection \<open>Key-presence selectors\<close>

text \<open>
  Claim C9. On a selector of kind \<^verbatim>\<open>EXISTS_KEY\<close> the result is the presence of the key in
  the label map, and on kind \<^verbatim>\<open>NOT_EXISTS_KEY\<close> its absence, whatever the value set: two
  value sets, or any value list put in the selector, give the same result.
\<close>

theorem key_selectors_ignore_values:
  "(sel_type selector = EXISTS_KEY \<longrightarrow>
      SatisfiesLabelSelector rd_labels V1 selector = Inr (sel_key selector \<in> dom rd_labels)
      \<and> SatisfiesLabelSelector rd_labels V2 selector = Inr (sel_key selector \<in> dom rd_labels)
      \<and> SatisfiesLabelSelector_map rd_labels (selector\<lparr>sel_values := vs\<rparr>) =
          Inr (sel_key selector \<in> dom rd_labels))
   \<and> (sel_type selector = NOT_EXISTS_KEY \<longrightarrow>
      SatisfiesLabelSelector rd_labels V1 selector = Inr (sel_key selector \<notin> dom rd_labels)
      \<and> SatisfiesLabelSelector rd_labels V2 selector = Inr (sel_key selector \<notin> dom rd_labels)
      \<and> SatisfiesLabelSelector_map rd_labels (selector\<lparr>sel_values := vs\<rparr>) =
          Inr (sel_key selector \<notin> dom rd_labels))"
  by (auto simp: SatisfiesLabelSelector_map_def SatisfiesLabelSelector_def ContainsKey_def
      selector_type_defs)

theorem key_selectors_ignore_values_witness:
  "SatisfiesLabelSelector [''gpu'' \<mapsto> ''yes''] {''a''}
       \<lparr>sel_type = EXISTS_KEY, sel_key = ''gpu'', sel_values = [''a'']\<rparr> = Inr True
   \<and> SatisfiesLabelSelector [''gpu'' \<mapsto> ''yes''] {''yes'', ''b''}
       \<lparr>sel_type = EXISTS_KEY, sel_key = ''gpu'', sel_values = [''a'']\<rparr> = Inr True
   \<and> SatisfiesLabelSelector [''gpu'' \<mapsto> ''yes''] {''a''}
       \<lparr>sel_type = NOT_EXISTS_KEY, sel_key = ''gpu'', sel_values = [''a'']\<rparr> = Inr False
   \<and> SatisfiesLabelSelector [''gpu'' \<mapsto> ''yes''] {''yes'', ''b''}
       \<lparr>sel_type = NOT_EXISTS_KEY, sel_key = ''gpu'', sel_values = [''a'']\<rparr> = Inr False"
  using key_selectors_ignore_values
      [of "\<lparr>sel_type = EXISTS_KEY, sel_key = ''gpu'', sel_values = [''a'']\<rparr>"
          "[''gpu'' \<mapsto> ''yes'']" "{''a''}" "{''yes'', ''b''}" "[]"]
    key_selectors_ignore_values
      [of "\<lparr>sel_type = NOT_EXISTS_KEY, sel_key = ''gpu'', sel_values = [''a'']\<rparr>"
          "[''gpu'' \<mapsto> ''yes'']" "{''a''}" "{''yes'', ''b''}" "[]"]
  by (simp add: selector_type_defs)

subsection \<open>The hash of a selector list\<close>

text \<open>
  Claim C10. \<^verbatim>\<open>HashSelectors\<close> reads only the keys and the value lists: two selector
  lists of equal length that agree pointwise on key and values have the same hash,
  whatever their kinds, for any string hash and any combining function. So an
  \<^verbatim>\<open>IN_SET\<close> and a \<^verbatim>\<open>NOT_IN_SET\<close> selector with the same key and values, which give
  opposite results, hash alike.
\<close>

theorem hash_ignores_selector_kind:
  assumes "list_all2 (\<lambda>a b. sel_key a = sel_key b \<and> sel_values a = sel_values b) xs ys"
  shows "HashSelectors hash_combine HashString xs = HashSelectors hash_combine HashString ys"
  unfolding HashSelectors_def HashSelectors_proj
  using list_all2_proj [OF assms] by simp

theorem hash_ignores_selector_kind_witness:
  "(\<forall>hash_combine HashString.
      HashSelectors hash_combine HashString
        [\<lparr>sel_type = IN_SET, sel_key = ''zone'', sel_values = [''us-east'']\<rparr>]
      = HashSelectors hash_combine HashString
        [\<lparr>sel_type = NOT_IN_SET, sel_key = ''zone'', sel_values = [''us-east'']\<rparr>])
   \<and> SatisfiesLabelSelector_map [''zone'' \<mapsto> ''us-east'']
        \<lparr>sel_type = IN_SET, sel_key = ''zone'', sel_values = [''us-east'']\<rparr> = Inr True
   \<and> SatisfiesLabelSelector_map [''zone'' \<mapsto> ''us-east'']
        \<lparr>sel_type = NOT_IN_SET, sel_key = ''zone'', sel_values = [''us-east'']\<rparr> = Inr False"
proof -
  let ?i = "\<lparr>sel_type = IN_SET, sel_key = ''zone'', sel_values = [''us-east'']\<rparr>"
  let ?n = "\<lparr>sel_type = NOT_IN_SET, sel_key = ''zone'', sel_values = [''us-east'']\<rparr>"
  have agree: "list_all2 (\<lambda>a b. sel_key a = sel_key b \<and> sel_values a = sel_values b) [?i] [?n]"
    by simp
  have "HashSelectors hash_combine HashString [?i] = HashSelectors hash_combine HashString [?n]"
    for hash_combine HashString
    by (rule hash_ignores_selector_kind [OF agree])
  moreover have "SatisfiesLabelSelector_map [''zone'' \<mapsto> ''us-east''] ?i = Inr True"
    by (simp add: SatisfiesLabelSelector_map_def SatisfiesLabelSelector_def FindOrNull_def)
  moreover have "SatisfiesLabelSelector_map [''zone'' \<mapsto> ''us-east''] ?n = Inr False"
    by (simp add: SatisfiesLabelSelector_map_def SatisfiesLabelSelector_def FindOrNull_def
        selector_type_defs)
  ultimately show ?thesis by simp
qed

end
